theory Spec2Isabelle
  imports Complex_Main
begin

section \<open>Python values used by nutrition.py\<close>

text \<open>
  The exceptions the script can meet: those the interpreter raises on the values
  modelled here, and whatever a client library (myfitnesspal, notion_client) raises.
\<close>

datatype error = TypeError | KeyError | OverflowError | ExternalError string

text \<open>
  A value of the provider or of the store: \<open>None\<close>, an \<open>int\<close> or a finite
  \<open>float\<close>. A float is given by the rational number it denotes.
\<close>

datatype pyval = PNone | PInt int | PFloat rat

text \<open>
  A value the script computes from those: arithmetic on floats can leave the finite
  range, so a computed value is a value as above or an infinity (\<open>Inf True\<close> is
  \<open>inf\<close>, \<open>Inf False\<close> is \<open>-inf\<close>). The script never subtracts two infinities,
  so \<open>nan\<close> does not arise.
\<close>

datatype xval = Val pyval | Inf bool

text \<open>Sequencing of statements that may raise: the first exception ends the block.\<close>

definition bind_err :: "error + 'a \<Rightarrow> ('a \<Rightarrow> error + 'b) \<Rightarrow> error + 'b" where
  "bind_err r f = (case r of Inl e \<Rightarrow> Inl e | Inr v \<Rightarrow> f v)"

text \<open>Rounding to the nearest integer, a tie going to the even neighbour.\<close>

definition round_half_even :: "rat \<Rightarrow> int" where
  "round_half_even x =
     (let f = \<lfloor>x\<rfloor>; d = x - of_int f
      in if d < 1 / 2 then f
         else if 1 / 2 < d then f + 1
         else if even f then f else f + 1)"

subsection \<open>Double precision\<close>

text \<open>
  A Python float is an IEEE 754 binary64 number: an integer of magnitude below
  \<open>2^53\<close> times a power of two whose exponent is at least -1074, of magnitude below
  \<open>2^1024\<close>. Every float operation returns the exact result rounded to the nearest
  such number, a tie going to the even significand, and an infinity when the rounded
  magnitude reaches \<open>2^1024\<close>.
\<close>

definition pow2 :: "int \<Rightarrow> rat" where
  "pow2 k = (if 0 \<le> k then 2 ^ nat k else 1 / 2 ^ nat (- k))"

text \<open>
  The exponent of the unit in the last place for a magnitude \<open>a\<close>: the largest \<open>q\<close>
  from -1073 to 971 with \<open>2^(q+52) \<le> a\<close>, and -1074 (the subnormal spacing) when
  there is none. \<open>ulp_search n\<close> tries \<open>q = n - 1074\<close> downwards.
\<close>

fun ulp_search :: "nat \<Rightarrow> rat \<Rightarrow> int" where
  "ulp_search 0 a = - 1074"
| "ulp_search (Suc n) a =
     (if pow2 (int (Suc n) - 1022) \<le> a then int (Suc n) - 1074 else ulp_search n a)"

definition ulp_exponent :: "rat \<Rightarrow> int" where
  "ulp_exponent a = ulp_search 2045 a"

text \<open>The double nearest to \<open>x\<close>; \<open>None\<close> when the result is an infinity.\<close>

definition round_to_double :: "rat \<Rightarrow> rat option" where
  "round_to_double x =
     (let q = ulp_exponent \<bar>x\<bar>;
          m = round_half_even (\<bar>x\<bar> / pow2 q);
          r = of_int m * pow2 q
      in if pow2 1024 \<le> r then None else Some (if x < 0 then - r else r))"

text \<open>
  The result of a float operation whose exact value is \<open>x\<close>, and \<open>float(i)\<close> for an
  \<open>int\<close>, which raises OverflowError when the int is too large for a float.
\<close>

definition float_result :: "rat \<Rightarrow> xval" where
  "float_result x =
     (case round_to_double x of None \<Rightarrow> Inf (0 < x) | Some r \<Rightarrow> Val (PFloat r))"

definition float_of_int :: "int \<Rightarrow> error + rat" where
  "float_of_int i =
     (case round_to_double (of_int i) of None \<Rightarrow> Inl OverflowError | Some r \<Rightarrow> Inr r)"

subsection \<open>Operators\<close>

fun truthy :: "xval \<Rightarrow> bool" where
  "truthy (Val PNone) = False"
| "truthy (Val (PInt i)) = (i \<noteq> 0)"
| "truthy (Val (PFloat r)) = (r \<noteq> 0)"
| "truthy (Inf s) = True"

text \<open>\<open>a or b\<close>.\<close>

definition py_or :: "xval \<Rightarrow> xval \<Rightarrow> xval" where
  "py_or a b = (if truthy a then a else b)"

text \<open>
  \<open>a + b\<close> as line 80 uses it, the running total on the left and a value of the
  provider on the right. Two ints add exactly. With a float on either side the int, if
  any, is converted to a float first and the sum is a float operation. \<open>None\<close> as an
  operand raises TypeError.
\<close>

fun py_add :: "xval \<Rightarrow> pyval \<Rightarrow> error + xval" where
  "py_add (Val (PInt a)) (PInt b) = Inr (Val (PInt (a + b)))"
| "py_add (Val (PInt a)) (PFloat b) =
     bind_err (float_of_int a) (\<lambda>a'. Inr (float_result (a' + b)))"
| "py_add (Val (PFloat a)) (PInt b) =
     bind_err (float_of_int b) (\<lambda>b'. Inr (float_result (a + b')))"
| "py_add (Val (PFloat a)) (PFloat b) = Inr (float_result (a + b))"
| "py_add (Inf s) (PInt b) = bind_err (float_of_int b) (\<lambda>b'. Inr (Inf s))"
| "py_add (Inf s) (PFloat b) = Inr (Inf s)"
| "py_add _ _ = Inl TypeError"

text \<open>
  \<open>a - b\<close> as line 83 uses it, a value of the provider on the left and the computed
  total on the right.
\<close>

fun py_sub :: "pyval \<Rightarrow> xval \<Rightarrow> error + xval" where
  "py_sub (PInt a) (Val (PInt b)) = Inr (Val (PInt (a - b)))"
| "py_sub (PInt a) (Val (PFloat b)) =
     bind_err (float_of_int a) (\<lambda>a'. Inr (float_result (a' - b)))"
| "py_sub (PFloat a) (Val (PInt b)) =
     bind_err (float_of_int b) (\<lambda>b'. Inr (float_result (a - b')))"
| "py_sub (PFloat a) (Val (PFloat b)) = Inr (float_result (a - b))"
| "py_sub (PInt a) (Inf s) = bind_err (float_of_int a) (\<lambda>a'. Inr (Inf (\<not> s)))"
| "py_sub (PFloat a) (Inf s) = Inr (Inf (\<not> s))"
| "py_sub _ _ = Inl TypeError"

text \<open>
  \<open>round(x)\<close> with one argument returns an \<open>int\<close>: the int itself, or the float
  rounded to the nearest integer, a tie going to the even neighbour. It raises
  OverflowError on an infinity and TypeError on \<open>None\<close>.
\<close>

fun py_round :: "xval \<Rightarrow> error + int" where
  "py_round (Val PNone) = Inl TypeError"
| "py_round (Val (PInt i)) = Inr i"
| "py_round (Val (PFloat r)) = Inr (round_half_even r)"
| "py_round (Inf s) = Inl OverflowError"

text \<open>
  \<open>a == b\<close>: numbers compare by value (an int and a float exactly, without
  conversion), \<open>None\<close> equals only itself.
\<close>

fun py_eq :: "pyval \<Rightarrow> pyval \<Rightarrow> bool" where
  "py_eq PNone PNone = True"
| "py_eq (PInt a) (PInt b) = (a = b)"
| "py_eq (PInt a) (PFloat b) = (of_int a = b)"
| "py_eq (PFloat a) (PInt b) = (a = of_int b)"
| "py_eq (PFloat a) (PFloat b) = (a = b)"
| "py_eq _ _ = False"

text \<open>\<open>a > b\<close>: ordering \<open>None\<close> against a number raises TypeError.\<close>

fun py_gt :: "pyval \<Rightarrow> pyval \<Rightarrow> error + bool" where
  "py_gt (PInt a) (PInt b) = Inr (b < a)"
| "py_gt (PInt a) (PFloat b) = Inr (b < of_int a)"
| "py_gt (PFloat a) (PInt b) = Inr (of_int b < a)"
| "py_gt (PFloat a) (PFloat b) = Inr (b < a)"
| "py_gt _ _ = Inl TypeError"

text \<open>\<open>d.get(k, default)\<close> on a dict.\<close>

definition dict_get :: "('k \<rightharpoonup> 'v) \<Rightarrow> 'k \<Rightarrow> 'v \<Rightarrow> 'v" where
  "dict_get m k dflt = (case m k of None \<Rightarrow> dflt | Some v \<Rightarrow> v)"

text \<open>The rational a number denotes (0 for \<open>None\<close>, on which no arithmetic is defined).\<close>

fun num_val :: "pyval \<Rightarrow> rat" where
  "num_val PNone = 0"
| "num_val (PInt i) = of_int i"
| "num_val (PFloat r) = r"


section \<open>Dates\<close>

text \<open>
  A \<open>datetime.date\<close>, and \<open>strftime('%Y-%m-%d')\<close> on it (years 1000 to 9999, where
  every platform prints four digits).
\<close>

record pydate =
  year :: nat
  month :: nat
  day :: nat

definition digit_char :: "nat \<Rightarrow> char" where
  "digit_char n = ''0123456789'' ! (n mod 10)"

definition pad2 :: "nat \<Rightarrow> string" where
  "pad2 n = [digit_char (n div 10), digit_char n]"

definition pad4 :: "nat \<Rightarrow> string" where
  "pad4 n = [digit_char (n div 1000), digit_char (n div 100), digit_char (n div 10), digit_char n]"

definition strftime_ymd :: "pydate \<Rightarrow> string" where
  "strftime_ymd d = pad4 (year d) @ ''-'' @ pad2 (month d) @ ''-'' @ pad2 (day d)"

section \<open>The provider: what myfitnesspal returns\<close>

text \<open>
  A \<open>Day\<close> has \<open>totals\<close> (a dict from nutrient name to number) and \<open>exercises\<close>,
  a list of exercise groups; each group has \<open>entries\<close>, each entry a dict
  \<open>nutrition_information\<close>.
\<close>

record exercise_entry =
  nutrition_information :: "string \<rightharpoonup> pyval"

record exercise =
  entries :: "exercise_entry list"

record mfp_day =
  totals :: "string \<rightharpoonup> pyval"
  exercises :: "exercise list"

text \<open>
  The client: \<open>get_date(year, month, day)\<close> returns a \<open>Day\<close> or a falsy value
  (\<open>None\<close> here) or raises; \<open>get_water(date)\<close> returns a value or raises.
\<close>

record mfp_client =
  get_date :: "nat \<Rightarrow> nat \<Rightarrow> nat \<Rightarrow> error + mfp_day option"
  get_water :: "pydate \<Rightarrow> error + pyval"

section \<open>get\_mfp\_data\_for\_date\<close>

text \<open>
  The dict the function returns. The six rounded values are Python ints. The key
  \<open>water_ml\<close> is the one the script itself treats as optional
  (\<open>"water_ml" in mfp_data\<close>, \<open>new_data.get("water_ml", 0)\<close>): \<open>None\<close> is a
  dict without the key, \<open>Some v\<close> a dict holding \<open>v\<close> under it.
\<close>

record snapshot =
  date :: string
  calories_in :: int
  calories_out_exercise :: int
  net_calories :: int
  protein :: int
  carbs :: int
  fats :: int
  water_ml :: "pyval option"

text \<open>
  Lines 76-80: \<open>calories_out_exercise += entry.nutrition_information.get('calories burned', 0)\<close>
  over the entries of every exercise group.
\<close>

fun sum_entries :: "xval \<Rightarrow> exercise_entry list \<Rightarrow> error + xval" where
  "sum_entries acc [] = Inr acc"
| "sum_entries acc (entry # rest) =
     bind_err (py_add acc (dict_get (nutrition_information entry) ''calories burned'' (PInt 0)))
       (\<lambda>acc'. sum_entries acc' rest)"

fun sum_exercises :: "xval \<Rightarrow> exercise list \<Rightarrow> error + xval" where
  "sum_exercises acc [] = Inr acc"
| "sum_exercises acc (exercise_group # rest) =
     bind_err (sum_entries acc (entries exercise_group))
       (\<lambda>acc'. sum_exercises acc' rest)"

definition exercise_calories :: "mfp_day \<Rightarrow> error + xval" where
  "exercise_calories dy =
     (if exercises dy \<noteq> [] then sum_exercises (Val (PInt 0)) (exercises dy)
      else Inr (Val (PInt 0)))"

text \<open>The body of the \<open>try\<close> block (lines 60-100).\<close>

definition get_mfp_data_body :: "mfp_client \<Rightarrow> pydate \<Rightarrow> error + snapshot option" where
  "get_mfp_data_body client target_date =
     bind_err (get_date client (year target_date) (month target_date) (day target_date))
       (\<lambda>dy_opt. case dy_opt of
          None \<Rightarrow> Inr None
        | Some dy \<Rightarrow>
            (let cals_in = dict_get (totals dy) ''calories'' (PInt 0);
                 prot = dict_get (totals dy) ''protein'' (PInt 0);
                 carb = dict_get (totals dy) ''carbohydrates'' (PInt 0);
                 fat = dict_get (totals dy) ''fat'' (PInt 0)
             in bind_err (get_water client target_date) (\<lambda>water.
                bind_err (exercise_calories dy) (\<lambda>cals_out.
                bind_err (py_sub cals_in cals_out) (\<lambda>net.
                bind_err (py_round (py_or (Val cals_in) (Val (PInt 0)))) (\<lambda>r_in.
                bind_err (py_round (py_or cals_out (Val (PInt 0)))) (\<lambda>r_out.
                bind_err (py_round (py_or net (Val (PInt 0)))) (\<lambda>r_net.
                bind_err (py_round (py_or (Val prot) (Val (PInt 0)))) (\<lambda>r_prot.
                bind_err (py_round (py_or (Val carb) (Val (PInt 0)))) (\<lambda>r_carb.
                bind_err (py_round (py_or (Val fat) (Val (PInt 0)))) (\<lambda>r_fat.
                  Inr (Some \<lparr> date = strftime_ymd target_date,
                               calories_in = r_in,
                               calories_out_exercise = r_out,
                               net_calories = r_net,
                               protein = r_prot,
                               carbs = r_carb,
                               fats = r_fat,
                               water_ml = Some (if water \<noteq> PNone then water else PInt 0) \<rparr>))))))))))))"

text \<open>\<open>except Exception\<close>: every exception of the body gives \<open>None\<close>.\<close>

definition get_mfp_data_for_date :: "mfp_client \<Rightarrow> pydate \<Rightarrow> snapshot option" where
  "get_mfp_data_for_date client target_date =
     (case get_mfp_data_body client target_date of
        Inl e \<Rightarrow> None
      | Inr result \<Rightarrow> result)"

section \<open>The store: Notion pages and requests\<close>

text \<open>The property names of the database (lines 24-31).\<close>

definition NOTION_DATE_PROP :: string where "NOTION_DATE_PROP = ''Date''"
definition NOTION_CALS_IN_PROP :: string where "NOTION_CALS_IN_PROP = ''Calories In''"
definition NOTION_CALS_OUT_PROP :: string where "NOTION_CALS_OUT_PROP = ''Calories Out (Exercise)''"
definition NOTION_NET_CALS_PROP :: string where "NOTION_NET_CALS_PROP = ''Net Calories''"
definition NOTION_PROTEIN_PROP :: string where "NOTION_PROTEIN_PROP = ''Protein (g)''"
definition NOTION_CARBS_PROP :: string where "NOTION_CARBS_PROP = ''Carbs (g)''"
definition NOTION_FATS_PROP :: string where "NOTION_FATS_PROP = ''Fats (g)''"
definition NOTION_WATER_PROP :: string where "NOTION_WATER_PROP = ''Water (ml)''"

text \<open>
  A page as the store returns it: its \<open>id\<close> and its number properties, each name
  mapped to the value under \<open>'number'\<close> (a number, or \<open>None\<close> for JSON null).
  A name outside the map is a property the page does not have.
\<close>

record page =
  page_id :: string
  properties :: "string \<rightharpoonup> pyval"

text \<open>
  The filter of \<open>databases.query\<close>, and the client. A response is a dict with a
  \<open>results\<close> list; \<open>None\<close> stands for a falsy response.
\<close>

record date_filter =
  filter_property :: string
  date_equals :: string

record query_response =
  results :: "page list"

record notion_client =
  databases_query :: "string \<Rightarrow> date_filter \<Rightarrow> error + query_response option"

section \<open>entry\_exists\<close>

definition entry_exists :: "notion_client \<Rightarrow> string \<Rightarrow> string \<Rightarrow> page option" where
  "entry_exists notion database_id entry_date_str =
     (case databases_query notion database_id
             \<lparr> filter_property = NOTION_DATE_PROP, date_equals = entry_date_str \<rparr> of
        Inl e \<Rightarrow> None
      | Inr None \<Rightarrow> None
      | Inr (Some response) \<Rightarrow>
          (case results response of
             [] \<Rightarrow> None
           | first_page # _ \<Rightarrow> Some first_page))"

section \<open>entry\_needs\_update\<close>

text \<open>The helper of lines 144-147.\<close>

definition get_notion_number :: "(string \<rightharpoonup> pyval) \<Rightarrow> string \<Rightarrow> pyval" where
  "get_notion_number props prop_name =
     (case props prop_name of
        Some v \<Rightarrow> if v \<noteq> PNone then v else PInt 0
      | None \<Rightarrow> PInt 0)"

text \<open>
  Lines 149-160. The \<open>or\<close> chain stops at the first true term. Its last term reads
  \<open>new_data["water_ml"]\<close> (KeyError without the key) only when the page has the water
  property; the second \<open>if\<close> compares \<open>new_data.get("water_ml", 0) > 0\<close> (TypeError
  on \<open>None\<close>) only when the page lacks it.
\<close>

definition entry_needs_update :: "page \<Rightarrow> snapshot \<Rightarrow> error + bool" where
  "entry_needs_update existing_page new_data =
     (let props = properties existing_page
      in bind_err
           (if \<not> py_eq (get_notion_number props NOTION_CALS_IN_PROP) (PInt (calories_in new_data))
              then Inr True
            else if \<not> py_eq (get_notion_number props NOTION_CALS_OUT_PROP)
                        (PInt (calories_out_exercise new_data))
              then Inr True
            else if \<not> py_eq (get_notion_number props NOTION_NET_CALS_PROP)
                        (PInt (net_calories new_data))
              then Inr True
            else if \<not> py_eq (get_notion_number props NOTION_PROTEIN_PROP) (PInt (protein new_data))
              then Inr True
            else if \<not> py_eq (get_notion_number props NOTION_CARBS_PROP) (PInt (carbs new_data))
              then Inr True
            else if \<not> py_eq (get_notion_number props NOTION_FATS_PROP) (PInt (fats new_data))
              then Inr True
            else if props NOTION_WATER_PROP \<noteq> None
              then (case water_ml new_data of
                      None \<Rightarrow> Inl KeyError
                    | Some w \<Rightarrow> Inr (\<not> py_eq (get_notion_number props NOTION_WATER_PROP) w))
            else Inr False)
           (\<lambda>changed.
              if changed then Inr True
              else if props NOTION_WATER_PROP = None
                then bind_err (py_gt (case water_ml new_data of None \<Rightarrow> PInt 0 | Some w \<Rightarrow> w) (PInt 0))
                       (\<lambda>has_water. if has_water then Inr True else Inr False)
              else Inr False))"

section \<open>create\_notion\_entry and update\_notion\_entry\<close>

text \<open>
  A property value of a request: \<open>{"number": v}\<close> or \<open>{"date": {"start": s}}\<close>.
\<close>

datatype prop_value = Number pyval | DateStart string

text \<open>
  The keyword arguments of \<open>pages.create\<close>: \<open>parent\<close>'s database id, the
  properties and the emoji of the icon; and those of \<open>pages.update\<close>.
\<close>

record page_data =
  parent_database_id :: string
  create_properties :: "string \<rightharpoonup> prop_value"
  icon_emoji :: string

record update_data =
  update_page_id :: string
  update_properties :: "string \<rightharpoonup> prop_value"

text \<open>The red apple of line 187, as its four UTF-8 bytes.\<close>

definition APPLE_EMOJI :: string where
  "APPLE_EMOJI = [CHR 0xF0, CHR 0x9F, CHR 0x8D, CHR 0x8E]"

text \<open>
  Both functions build their request (lines 170-188 and 205-219) and hand it to the
  store; an exception of the store is caught and printed, so each returns normally.
  The model gives the request submitted.
\<close>

definition create_notion_entry :: "string \<Rightarrow> snapshot \<Rightarrow> page_data" where
  "create_notion_entry database_id mfp_data =
     (let props = [NOTION_DATE_PROP \<mapsto> DateStart (date mfp_data),
                   NOTION_CALS_IN_PROP \<mapsto> Number (PInt (calories_in mfp_data)),
                   NOTION_CALS_OUT_PROP \<mapsto> Number (PInt (calories_out_exercise mfp_data)),
                   NOTION_NET_CALS_PROP \<mapsto> Number (PInt (net_calories mfp_data)),
                   NOTION_PROTEIN_PROP \<mapsto> Number (PInt (protein mfp_data)),
                   NOTION_CARBS_PROP \<mapsto> Number (PInt (carbs mfp_data)),
                   NOTION_FATS_PROP \<mapsto> Number (PInt (fats mfp_data))];
          props' = (case water_ml mfp_data of
                      None \<Rightarrow> props
                    | Some w \<Rightarrow> if w \<noteq> PNone then props(NOTION_WATER_PROP \<mapsto> Number w) else props)
      in \<lparr> parent_database_id = database_id,
           create_properties = props',
           icon_emoji = APPLE_EMOJI \<rparr>)"

definition update_notion_entry :: "string \<Rightarrow> snapshot \<Rightarrow> update_data" where
  "update_notion_entry pid mfp_data =
     (let props = [NOTION_CALS_IN_PROP \<mapsto> Number (PInt (calories_in mfp_data)),
                   NOTION_CALS_OUT_PROP \<mapsto> Number (PInt (calories_out_exercise mfp_data)),
                   NOTION_NET_CALS_PROP \<mapsto> Number (PInt (net_calories mfp_data)),
                   NOTION_PROTEIN_PROP \<mapsto> Number (PInt (protein mfp_data)),
                   NOTION_CARBS_PROP \<mapsto> Number (PInt (carbs mfp_data)),
                   NOTION_FATS_PROP \<mapsto> Number (PInt (fats mfp_data))];
          props' = (case water_ml mfp_data of
                      None \<Rightarrow> props
                    | Some w \<Rightarrow> if w \<noteq> PNone then props(NOTION_WATER_PROP \<mapsto> Number w) else props)
      in \<lparr> update_page_id = pid,
           update_properties = props' \<rparr>)"

section \<open>main\<close>

text \<open>
  What the run does to the outside, in order: creating the provider client
  (\<open>myfitnesspal.Client()\<close>, which logs in), creating the store client, and the calls
  \<open>main\<close> makes per date.
\<close>

datatype call =
    MfpClientCreate
  | NotionClientCreate string
  | GetMfpData pydate
  | EntryExists string string
  | PagesCreate page_data
  | PagesUpdate update_data

text \<open>
  The two external systems. Their answers may depend on what the run did before, so
  each client is given as a function of the calls made so far.
\<close>

record world =
  mfp :: "call list \<Rightarrow> mfp_client"
  notion :: "call list \<Rightarrow> notion_client"

text \<open>
  The body of the loop (lines 269-296) for one date, started after the calls \<open>tr\<close>.
  It returns the calls made so far and the exception that left the loop, if one did:
  \<open>entry_needs_update\<close> is called outside any \<open>try\<close>.
\<close>

definition process_date :: "string \<Rightarrow> world \<Rightarrow> call list \<Rightarrow> pydate \<Rightarrow> call list \<times> error option" where
  "process_date database_id w tr target_date =
     (let date_str = strftime_ymd target_date;
          tr1 = tr @ [GetMfpData target_date]
      in case get_mfp_data_for_date (mfp w tr) target_date of
           None \<Rightarrow> (tr1, None)
         | Some mfp_data \<Rightarrow>
             (let tr2 = tr1 @ [EntryExists database_id date_str]
              in case entry_exists (notion w tr1) database_id date_str of
                   Some existing_page \<Rightarrow>
                     (case entry_needs_update existing_page mfp_data of
                        Inl e \<Rightarrow> (tr2, Some e)
                      | Inr True \<Rightarrow>
                          (tr2 @ [PagesUpdate (update_notion_entry (page_id existing_page) mfp_data)],
                           None)
                      | Inr False \<Rightarrow> (tr2, None))
                 | None \<Rightarrow> (tr2 @ [PagesCreate (create_notion_entry database_id mfp_data)], None)))"

text \<open>The \<open>for\<close> loop over \<open>dates_to_sync\<close>.\<close>

fun sync_dates :: "string \<Rightarrow> world \<Rightarrow> call list \<Rightarrow> pydate list \<Rightarrow> call list \<times> error option" where
  "sync_dates database_id w tr [] = (tr, None)"
| "sync_dates database_id w tr (target_date # rest) =
     (case process_date database_id w tr target_date of
        (tr', Some e) \<Rightarrow> (tr', Some e)
      | (tr', None) \<Rightarrow> sync_dates database_id w tr' rest)"

text \<open>
  What \<open>main\<close> reads from outside: the two environment variables (\<open>os.getenv\<close>
  gives \<open>None\<close> for an unset one), the outcome of \<open>get_mfp_client()\<close>, the store
  client built from the token, and today's date in the local time zone.
\<close>

record env =
  NOTION_TOKEN :: "string option"
  NOTION_DATABASE_ID :: "string option"
  get_mfp_client :: "error + (call list \<Rightarrow> mfp_client)"
  Client :: "string \<Rightarrow> call list \<Rightarrow> notion_client"
  today_local :: pydate

text \<open>
  Lines 229-234: \<open>not NOTION_TOKEN\<close> and \<open>not NOTION_DATABASE_ID\<close> hold for
  \<open>None\<close> and for the empty string.
\<close>

definition main :: "env \<Rightarrow> call list \<times> error option" where
  "main e =
     (case NOTION_TOKEN e of
        None \<Rightarrow> ([], None)
      | Some token \<Rightarrow>
          if token = [] then ([], None)
          else (case NOTION_DATABASE_ID e of
                  None \<Rightarrow> ([], None)
                | Some database_id \<Rightarrow>
                    if database_id = [] then ([], None)
                    else (case get_mfp_client e of
                            Inl err \<Rightarrow> ([MfpClientCreate], None)
                          | Inr mfp_client \<Rightarrow>
                              (let dates_to_sync = [today_local e]
                               in sync_dates database_id
                                    \<lparr> mfp = mfp_client, notion = Client e token \<rparr>
                                    [MfpClientCreate, NotionClientCreate token]
                                    dates_to_sync))))"

section \<open>The update rule as the specification words it\<close>

text \<open>
  The specification compares numbers: a stored value that is missing or null counts
  as 0, and an update is needed when one of the six core fields differs, or the water
  field is present on the stored record and differs, or it is absent there and the new
  water is above 0. Here \<open>water\<close> is the value the snapshot holds under \<open>water_ml\<close>.
\<close>

definition stored_or_zero :: "page \<Rightarrow> string \<Rightarrow> rat" where
  "stored_or_zero p name = (case properties p name of None \<Rightarrow> 0 | Some v \<Rightarrow> num_val v)"

definition core_fields_differ :: "page \<Rightarrow> snapshot \<Rightarrow> bool" where
  "core_fields_differ p s =
     (stored_or_zero p NOTION_CALS_IN_PROP \<noteq> of_int (calories_in s) \<or>
      stored_or_zero p NOTION_CALS_OUT_PROP \<noteq> of_int (calories_out_exercise s) \<or>
      stored_or_zero p NOTION_NET_CALS_PROP \<noteq> of_int (net_calories s) \<or>
      stored_or_zero p NOTION_PROTEIN_PROP \<noteq> of_int (protein s) \<or>
      stored_or_zero p NOTION_CARBS_PROP \<noteq> of_int (carbs s) \<or>
      stored_or_zero p NOTION_FATS_PROP \<noteq> of_int (fats s))"

definition water_term :: "page \<Rightarrow> pyval \<Rightarrow> bool" where
  "water_term p water =
     ((properties p NOTION_WATER_PROP \<noteq> None \<and> stored_or_zero p NOTION_WATER_PROP \<noteq> num_val water) \<or>
      (properties p NOTION_WATER_PROP = None \<and> 0 < num_val water))"

definition needs_update_spec :: "page \<Rightarrow> snapshot \<Rightarrow> pyval \<Rightarrow> bool" where
  "needs_update_spec p s water = (core_fields_differ p s \<or> water_term p water)"

section \<open>Example inputs\<close>

text \<open>A day with fractional totals, 17 May 2024.\<close>

definition example_date :: pydate where
  "example_date = \<lparr> year = 2024, month = 5, day = 17 \<rparr>"

definition example_day :: mfp_day where
  "example_day =
     \<lparr> totals = [''calories'' \<mapsto> PFloat (7201 / 4),
                  ''protein'' \<mapsto> PInt 120,
                  ''carbohydrates'' \<mapsto> PFloat (401 / 2),
                  ''fat'' \<mapsto> PInt 60],
       exercises = [\<lparr> entries = [\<lparr> nutrition_information =
                                      [''calories burned'' \<mapsto> PFloat (2405 / 8)] \<rparr>] \<rparr>] \<rparr>"

definition example_client :: mfp_client where
  "example_client =
     \<lparr> get_date = (\<lambda>y m d. Inr (Some example_day)),
       get_water = (\<lambda>d. Inr (PFloat 750)) \<rparr>"

definition example_snapshot :: snapshot where
  "example_snapshot =
     \<lparr> date = ''2024-05-17'',
       calories_in = 1800,
       calories_out_exercise = 301,
       net_calories = 1500,
       protein = 120,
       carbs = 200,
       fats = 60,
       water_ml = Some (PFloat 750) \<rparr>"




text \<open>
  Days with decimal amounts, each float written as the double Python reads from the
  decimal: 1000.3 kcal eaten and 0.8 burned; and 10 kcal eaten with three exercise
  entries of 0.1, 0.2 and 0.2.
\<close>

definition decimal_day :: mfp_day where
  "decimal_day =
     \<lparr> totals = [''calories'' \<mapsto> PFloat (4399365925057331 / 2 ^ 42)],
       exercises = [\<lparr> entries = [\<lparr> nutrition_information =
                                      [''calories burned'' \<mapsto> PFloat (3602879701896397 / 2 ^ 52)] \<rparr>] \<rparr>] \<rparr>"

definition decimal_client :: mfp_client where
  "decimal_client =
     \<lparr> get_date = (\<lambda>y m d. Inr (Some decimal_day)),
       get_water = (\<lambda>d. Inr (PInt 500)) \<rparr>"

definition decimal_snapshot :: snapshot where
  "decimal_snapshot =
     \<lparr> date = ''2024-05-17'', calories_in = 1000, calories_out_exercise = 1,
       net_calories = 1000, protein = 0, carbs = 0, fats = 0,
       water_ml = Some (PInt 500) \<rparr>"







text \<open>A provider that is down, and one that has nothing for the date.\<close>

definition failing_client :: mfp_client where
  "failing_client =
     \<lparr> get_date = (\<lambda>y m d. Inl (ExternalError ''connection refused'')),
       get_water = (\<lambda>d. Inr (PFloat 750)) \<rparr>"

text \<open>A stored page for the example day whose protein is out of date, without water.\<close>

definition example_page :: page where
  "example_page =
     \<lparr> page_id = ''page-1'',
       properties = [NOTION_CALS_IN_PROP \<mapsto> PInt 1800,
                     NOTION_CALS_OUT_PROP \<mapsto> PInt 301,
                     NOTION_NET_CALS_PROP \<mapsto> PInt 1500,
                     NOTION_PROTEIN_PROP \<mapsto> PInt 90,
                     NOTION_CARBS_PROP \<mapsto> PInt 200,
                     NOTION_FATS_PROP \<mapsto> PNone] \<rparr>"

text \<open>Stores: one whose query fails, one that holds no page, one that holds the page above.\<close>

definition failing_notion :: notion_client where
  "failing_notion = \<lparr> databases_query = (\<lambda>db f. Inl (ExternalError ''HTTP 502'')) \<rparr>"

definition empty_notion :: notion_client where
  "empty_notion = \<lparr> databases_query = (\<lambda>db f. Inr (Some \<lparr> results = [] \<rparr>)) \<rparr>"

definition example_notion :: notion_client where
  "example_notion =
     \<lparr> databases_query = (\<lambda>db f. Inr (Some \<lparr> results = [example_page, example_page \<lparr> page_id := ''page-2'' \<rparr>] \<rparr>)) \<rparr>"

definition example_world :: world where
  "example_world = \<lparr> mfp = (\<lambda>tr. example_client), notion = (\<lambda>tr. failing_notion) \<rparr>"

definition failing_world :: world where
  "failing_world = \<lparr> mfp = (\<lambda>tr. failing_client), notion = (\<lambda>tr. example_notion) \<rparr>"

definition unconfigured_env :: env where
  "unconfigured_env =
     \<lparr> NOTION_TOKEN = None,
       NOTION_DATABASE_ID = Some ''db-1'',
       get_mfp_client = Inr (\<lambda>tr. example_client),
       Client = (\<lambda>token tr. example_notion),
       today_local = example_date \<rparr>"

text \<open>
  A stored record with a date property, and a store that applies an update the way
  a patch does: the properties of the request replace those of the same name.
\<close>

definition example_stored :: "string \<rightharpoonup> prop_value" where
  "example_stored =
     [NOTION_DATE_PROP \<mapsto> DateStart ''2024-05-17'',
      NOTION_PROTEIN_PROP \<mapsto> Number (PInt 90)]"

definition patch_store :: "(string \<rightharpoonup> prop_value) \<Rightarrow> update_data \<Rightarrow> (string \<rightharpoonup> prop_value)" where
  "patch_store stored req = stored ++ update_properties req"

text \<open>
  The example page brought up to date (the store gives 60 back as a float), the example
  day with no water logged, and a provider that returns \<open>None\<close> for the water.
\<close>

definition matching_page :: page where
  "matching_page =
     \<lparr> page_id = ''page-1'',
       properties = [NOTION_CALS_IN_PROP \<mapsto> PInt 1800,
                     NOTION_CALS_OUT_PROP \<mapsto> PInt 301,
                     NOTION_NET_CALS_PROP \<mapsto> PInt 1500,
                     NOTION_PROTEIN_PROP \<mapsto> PInt 120,
                     NOTION_CARBS_PROP \<mapsto> PInt 200,
                     NOTION_FATS_PROP \<mapsto> PFloat 60] \<rparr>"

definition dry_snapshot :: snapshot where
  "dry_snapshot = example_snapshot \<lparr> water_ml := Some (PInt 0) \<rparr>"

definition no_water_client :: mfp_client where
  "no_water_client = example_client \<lparr> get_water := (\<lambda>d. Inr PNone) \<rparr>"

section \<open>Facts about the value model\<close>

lemma bind_err_Inr_iff:
  "bind_err r f = Inr y \<longleftrightarrow> (\<exists>v. r = Inr v \<and> f v = Inr y)"
  by (cases r) (simp_all add: bind_err_def)

lemma round_half_even_of_int: "round_half_even (of_int i) = i"
  by (simp add: round_half_even_def)

lemma round_half_even_0: "round_half_even 0 = 0"
  using round_half_even_of_int [of 0] by simp


lemma floor_rat_numeral_div:
  "\<lfloor>(numeral a :: rat) / numeral b\<rfloor> = numeral a div numeral b"
  using floor_divide_of_int_eq [of "numeral a" "numeral b", where ?'a = rat] by simp

lemma floor_rat_neg_numeral_div:
  "\<lfloor>- ((numeral a :: rat) / numeral b)\<rfloor> = - numeral a div numeral b"
  using floor_divide_of_int_eq [of "- numeral a" "numeral b", where ?'a = rat] by simp

lemma floor_rat_one_div: "\<lfloor>(1 :: rat) / numeral b\<rfloor> = 1 div numeral b"
  using floor_divide_of_int_eq [of 1 "numeral b", where ?'a = rat] by simp

lemmas round_eval =
  round_half_even_def Let_def floor_rat_numeral_div floor_rat_neg_numeral_div floor_rat_one_div

subsection \<open>The unit in the last place\<close>

lemma pow2_pos: "0 < pow2 k"
  by (simp add: pow2_def)

lemma pow2_mono: "k \<le> l \<Longrightarrow> pow2 k \<le> pow2 l"
proof -
  assume kl: "k \<le> l"
  consider "0 \<le> k" | "k < 0" "0 \<le> l" | "l < 0" using kl by linarith
  then show ?thesis
  proof cases
    case 1
    with kl show ?thesis by (simp add: pow2_def power_increasing)
  next
    case 2
    have "1 / 2 ^ nat (- k) \<le> (1::rat)" by simp
    also have "(1::rat) \<le> 2 ^ nat l" by simp
    finally show ?thesis using 2 by (simp add: pow2_def)
  next
    case 3
    with kl have "nat (- l) \<le> nat (- k)" by simp
    then have "(2::rat) ^ nat (- l) \<le> 2 ^ nat (- k)" by (simp add: power_increasing)
    then have "1 / (2::rat) ^ nat (- k) \<le> 1 / 2 ^ nat (- l)"
      by (simp add: frac_le)
    with 3 kl show ?thesis by (simp add: pow2_def)
  qed
qed

text \<open>
  The search finds the binade of \<open>a\<close>: for \<open>2^(q+52) \<le> a < 2^(q+53)\<close> within the
  range of exponents, and for every \<open>a\<close> below \<open>2^(-1021)\<close> with \<open>q = -1074\<close>.
\<close>

lemma ulp_search_eq:
  "q \<le> int n - 1074 \<Longrightarrow> - 1074 \<le> q \<Longrightarrow> q = - 1074 \<or> pow2 (q + 52) \<le> a \<Longrightarrow>
     a < pow2 (q + 53) \<Longrightarrow> ulp_search n a = q"
proof (induction n)
  case 0
  then show ?case by simp
next
  case (Suc n)
  show ?case
  proof (cases "q = int (Suc n) - 1074")
    case True
    with Suc.prems have "pow2 (int (Suc n) - 1022) \<le> a" by auto
    with True show ?thesis by simp
  next
    case False
    with Suc.prems have le: "q \<le> int n - 1074" by simp
    then have "q + 53 \<le> int (Suc n) - 1022" by simp
    then have "pow2 (q + 53) \<le> pow2 (int (Suc n) - 1022)" by (rule pow2_mono)
    with Suc.prems have "\<not> pow2 (int (Suc n) - 1022) \<le> a" by simp
    with Suc.IH [OF le Suc.prems(2,3,4)] show ?thesis by simp
  qed
qed

lemma ulp_exponent_eq:
  "- 1074 \<le> q \<Longrightarrow> q \<le> 971 \<Longrightarrow> q = - 1074 \<or> pow2 (q + 52) \<le> a \<Longrightarrow>
     a < pow2 (q + 53) \<Longrightarrow> ulp_exponent a = q"
  unfolding ulp_exponent_def by (rule ulp_search_eq) simp_all

lemma round_to_double_at:
  assumes "- 1074 \<le> q" and "q \<le> 971"
    and "q = - 1074 \<or> pow2 (q + 52) \<le> \<bar>x\<bar>" and "\<bar>x\<bar> < pow2 (q + 53)"
  shows "round_to_double x =
           (let m = round_half_even (\<bar>x\<bar> / pow2 q); r = of_int m * pow2 q
            in if pow2 1024 \<le> r then None else Some (if x < 0 then - r else r))"
  using ulp_exponent_eq [OF assms] by (simp add: round_to_double_def)

lemma float_result_at:
  assumes "- 1074 \<le> q" and "q \<le> 971"
    and "q = - 1074 \<or> pow2 (q + 52) \<le> \<bar>x\<bar>" and "\<bar>x\<bar> < pow2 (q + 53)"
  shows "float_result x =
           (let m = round_half_even (\<bar>x\<bar> / pow2 q); r = of_int m * pow2 q
            in if pow2 1024 \<le> r then Inf (0 < x)
               else Val (PFloat (if x < 0 then - r else r)))"
  by (simp add: float_result_def round_to_double_at [OF assms] Let_def)


lemmas float_eval = pow2_def round_eval

lemma round_to_double_0: "round_to_double 0 = Some 0"
proof -
  have "\<bar>0::rat\<bar> < pow2 (- 1074 + 53)" using pow2_pos [of "- 1074 + 53"] by simp
  then have "round_to_double 0 =
           (let m = round_half_even (\<bar>0\<bar> / pow2 (- 1074)); r = of_int m * pow2 (- 1074)
            in if pow2 1024 \<le> r then None else Some (if (0::rat) < 0 then - r else r))"
    by (intro round_to_double_at) simp_all
  then show ?thesis
    using pow2_pos [of 1024] by (simp add: round_half_even_0 Let_def)
qed

lemma float_of_int_0: "float_of_int 0 = Inr 0"
  by (simp add: float_of_int_def round_to_double_0)

subsection \<open>Rounding keeps the sign\<close>








subsection \<open>Subtraction and rounding\<close>

text \<open>
  \<open>round(x or 0)\<close> is the rounding of the number \<open>x\<close> denotes, and raises on an
  infinity.
\<close>

lemma py_round_or0:
  "py_round (py_or x (Val (PInt 0))) =
     (case x of Val v \<Rightarrow> Inr (round_half_even (num_val v)) | Inf s \<Rightarrow> Inl OverflowError)"
proof (cases x)
  case (Val v)
  then show ?thesis
    by (cases v) (simp_all add: py_or_def round_half_even_of_int round_half_even_0)
next
  case (Inf s)
  then show ?thesis by (simp add: py_or_def)
qed

lemma py_sub_ints: "py_sub (PInt i) (Val (PInt j)) = Inr (Val net) \<Longrightarrow> num_val net = of_int (i - j)"
  by auto

lemma py_sub_floats:
  "py_sub (PFloat a) (Val (PFloat b)) = Inr (Val net) \<Longrightarrow>
     round_to_double (a - b) = Some (num_val net)"
  by (auto simp: float_result_def split: option.splits)

section \<open>The snapshot that get\_mfp\_data\_for\_date returns\<close>

text \<open>
  A snapshot is returned exactly when both provider calls answer, the day is truthy,
  the sum over the exercise entries and the subtraction meet no \<open>None\<close> and no int
  too large for a float, and both stay finite.
\<close>

lemma get_mfp_data_for_date_Some:
  "get_mfp_data_for_date client d = Some s \<longleftrightarrow>
     (\<exists>dy water cals_out net.
        get_date client (year d) (month d) (day d) = Inr (Some dy) \<and>
        get_water client d = Inr water \<and>
        exercise_calories dy = Inr (Val cals_out) \<and>
        py_sub (dict_get (totals dy) ''calories'' (PInt 0)) (Val cals_out) = Inr (Val net) \<and>
        s = \<lparr> date = strftime_ymd d,
              calories_in = round_half_even (num_val (dict_get (totals dy) ''calories'' (PInt 0))),
              calories_out_exercise = round_half_even (num_val cals_out),
              net_calories = round_half_even (num_val net),
              protein = round_half_even (num_val (dict_get (totals dy) ''protein'' (PInt 0))),
              carbs = round_half_even (num_val (dict_get (totals dy) ''carbohydrates'' (PInt 0))),
              fats = round_half_even (num_val (dict_get (totals dy) ''fat'' (PInt 0))),
              water_ml = Some (if water \<noteq> PNone then water else PInt 0) \<rparr>)"
  unfolding get_mfp_data_for_date_def get_mfp_data_body_def Let_def py_round_or0
  by (auto simp: bind_err_def split: sum.splits option.splits xval.splits)

lemma get_mfp_data_for_dateI:
  assumes "get_date client (year d) (month d) (day d) = Inr (Some dy)"
    and "get_water client d = Inr water"
    and "exercise_calories dy = Inr (Val cals_out)"
    and "dict_get (totals dy) ''calories'' (PInt 0) = cals_in"
    and "py_sub cals_in (Val cals_out) = Inr (Val net)"
    and "s = \<lparr> date = strftime_ymd d,
              calories_in = round_half_even (num_val cals_in),
              calories_out_exercise = round_half_even (num_val cals_out),
              net_calories = round_half_even (num_val net),
              protein = round_half_even (num_val (dict_get (totals dy) ''protein'' (PInt 0))),
              carbs = round_half_even (num_val (dict_get (totals dy) ''carbohydrates'' (PInt 0))),
              fats = round_half_even (num_val (dict_get (totals dy) ''fat'' (PInt 0))),
              water_ml = Some (if water \<noteq> PNone then water else PInt 0) \<rparr>"
  shows "get_mfp_data_for_date client d = Some s"
  unfolding get_mfp_data_for_date_Some using assms by blast

lemma example_strftime: "strftime_ymd example_date = ''2024-05-17''"
  by (simp add: strftime_ymd_def example_date_def pad4_def pad2_def digit_char_def)

subsection \<open>The example day: 1800.25 eaten, 300.625 burned\<close>

lemma example_exercise_calories: "exercise_calories example_day = Inr (Val (PFloat (2405 / 8)))"
proof -
  have "float_result (2405 / 8) = Val (PFloat (2405 / 8))"
    by (subst float_result_at [where q = "- 44"]) (simp_all add: float_eval)
  then show ?thesis
    by (simp add: exercise_calories_def example_day_def bind_err_def dict_get_def float_of_int_0)
qed

lemma example_net:
  "py_sub (PFloat (7201 / 4)) (Val (PFloat (2405 / 8))) = Inr (Val (PFloat (11997 / 8)))"
proof -
  have "float_result (11997 / 8) = Val (PFloat (11997 / 8))"
    by (subst float_result_at [where q = "- 42"]) (simp_all add: float_eval)
  then show ?thesis by simp
qed

lemma example_get_date:
  "get_date example_client (year example_date) (month example_date) (day example_date)
     = Inr (Some example_day)"
  by (simp add: example_client_def)

lemma example_get_mfp_data:
  "get_mfp_data_for_date example_client example_date = Some example_snapshot"
proof (rule get_mfp_data_for_dateI [OF example_get_date _ example_exercise_calories _ example_net])
  show "get_water example_client example_date = Inr (PFloat 750)"
    by (simp add: example_client_def)
  show "dict_get (totals example_day) ''calories'' (PInt 0) = PFloat (7201 / 4)"
    by (simp add: example_day_def dict_get_def)
  show "example_snapshot =
      \<lparr> date = strftime_ymd example_date,
        calories_in = round_half_even (num_val (PFloat (7201 / 4))),
        calories_out_exercise = round_half_even (num_val (PFloat (2405 / 8))),
        net_calories = round_half_even (num_val (PFloat (11997 / 8))),
        protein = round_half_even (num_val (dict_get (totals example_day) ''protein'' (PInt 0))),
        carbs = round_half_even (num_val (dict_get (totals example_day) ''carbohydrates'' (PInt 0))),
        fats = round_half_even (num_val (dict_get (totals example_day) ''fat'' (PInt 0))),
        water_ml = Some (if PFloat 750 \<noteq> PNone then PFloat 750 else PInt 0) \<rparr>"
    by (simp add: example_snapshot_def example_strftime example_day_def dict_get_def round_eval)
qed

subsection \<open>The decimal day: 1000.3 eaten, 0.8 burned\<close>

lemma decimal_exercise_calories:
  "exercise_calories decimal_day = Inr (Val (PFloat (3602879701896397 / 2 ^ 52)))"
proof -
  have "float_result (3602879701896397 / 2 ^ 52) = Val (PFloat (3602879701896397 / 2 ^ 52))"
    by (subst float_result_at [where q = "- 53"]) (simp_all add: float_eval)
  then show ?thesis
    by (simp add: exercise_calories_def decimal_day_def bind_err_def dict_get_def float_of_int_0)
qed

text \<open>The double subtraction 1000.3 - 0.8 gives 999.5 exactly; the exact difference is below it.\<close>

lemma decimal_net:
  "py_sub (PFloat (4399365925057331 / 2 ^ 42)) (Val (PFloat (3602879701896397 / 2 ^ 52)))
     = Inr (Val (PFloat (1999 / 2)))"
proof -
  have "float_result (4399365925057331 / 2 ^ 42 - 3602879701896397 / 2 ^ 52)
          = Val (PFloat (1999 / 2))"
    by (subst float_result_at [where q = "- 43"]) (simp_all add: float_eval)
  then show ?thesis by simp
qed

lemma decimal_get_date:
  "get_date decimal_client (year example_date) (month example_date) (day example_date)
     = Inr (Some decimal_day)"
  by (simp add: decimal_client_def)

lemma decimal_get_mfp_data:
  "get_mfp_data_for_date decimal_client example_date = Some decimal_snapshot"
proof (rule get_mfp_data_for_dateI [OF decimal_get_date _ decimal_exercise_calories _ decimal_net])
  show "get_water decimal_client example_date = Inr (PInt 500)"
    by (simp add: decimal_client_def)
  show "dict_get (totals decimal_day) ''calories'' (PInt 0) = PFloat (4399365925057331 / 2 ^ 42)"
    by (simp add: decimal_day_def dict_get_def)
  show "decimal_snapshot =
      \<lparr> date = strftime_ymd example_date,
        calories_in = round_half_even (num_val (PFloat (4399365925057331 / 2 ^ 42))),
        calories_out_exercise = round_half_even (num_val (PFloat (3602879701896397 / 2 ^ 52))),
        net_calories = round_half_even (num_val (PFloat (1999 / 2))),
        protein = round_half_even (num_val (dict_get (totals decimal_day) ''protein'' (PInt 0))),
        carbs = round_half_even (num_val (dict_get (totals decimal_day) ''carbohydrates'' (PInt 0))),
        fats = round_half_even (num_val (dict_get (totals decimal_day) ''fat'' (PInt 0))),
        water_ml = Some (if PInt 500 \<noteq> PNone then PInt 500 else PInt 0) \<rparr>"
    by (simp add: decimal_snapshot_def example_strftime decimal_day_def dict_get_def round_eval)
qed

subsection \<open>The summed day: 10 eaten, 0.1 + 0.2 + 0.2 burned\<close>









subsection \<open>Days of whole numbers\<close>



text \<open>
  C1 (as the code has it). For every snapshot returned by \<open>get_mfp_data_for_date\<close>,
  \<open>net_calories\<close> is round(calories_in - calories_out_exercise) on the provider's
  raw values: Python's subtraction (for two floats, the double nearest the exact
  difference), then one rounding to an integer. \<open>calories_in\<close> and
  \<open>calories_out_exercise\<close> of the snapshot are the roundings of the two raw values.
  \<open>net_calories\<close> equals round(calories_in) - round(calories_out_exercise) whenever
  both raw values are Python ints.
\<close>

theorem net_calories_rounds_difference:
  assumes "get_mfp_data_for_date client d = Some s"
  shows "\<exists>dy cals_out net.
           get_date client (year d) (month d) (day d) = Inr (Some dy) \<and>
           exercise_calories dy = Inr (Val cals_out) \<and>
           py_sub (dict_get (totals dy) ''calories'' (PInt 0)) (Val cals_out) = Inr (Val net) \<and>
           net_calories s = round_half_even (num_val net) \<and>
           calories_in s = round_half_even (num_val (dict_get (totals dy) ''calories'' (PInt 0))) \<and>
           calories_out_exercise s = round_half_even (num_val cals_out) \<and>
           (\<forall>a b. dict_get (totals dy) ''calories'' (PInt 0) = PFloat a \<and> cals_out = PFloat b \<longrightarrow>
                  round_to_double (a - b) = Some (num_val net)) \<and>
           (\<forall>i j. dict_get (totals dy) ''calories'' (PInt 0) = PInt i \<and> cals_out = PInt j \<longrightarrow>
                  net_calories s = calories_in s - calories_out_exercise s)"
proof -
  from assms obtain dy water cals_out net where
    dy: "get_date client (year d) (month d) (day d) = Inr (Some dy)"
    and out: "exercise_calories dy = Inr (Val cals_out)"
    and net: "py_sub (dict_get (totals dy) ''calories'' (PInt 0)) (Val cals_out) = Inr (Val net)"
    and fields: "net_calories s = round_half_even (num_val net)"
      "calories_in s = round_half_even (num_val (dict_get (totals dy) ''calories'' (PInt 0)))"
      "calories_out_exercise s = round_half_even (num_val cals_out)"
    unfolding get_mfp_data_for_date_Some by auto
  have floats: "round_to_double (a - b) = Some (num_val net)"
    if "dict_get (totals dy) ''calories'' (PInt 0) = PFloat a \<and> cals_out = PFloat b" for a b
    using that net py_sub_floats [of a b net] by (auto simp del: py_sub.simps)
  have ints: "net_calories s = calories_in s - calories_out_exercise s"
    if "dict_get (totals dy) ''calories'' (PInt 0) = PInt i \<and> cals_out = PInt j" for i j
  proof -
    from that net py_sub_ints [of i j net] have "num_val net = of_int (i - j)"
      by (auto simp del: py_sub.simps)
    with that fields show ?thesis
      by (simp add: round_half_even_of_int del: of_int_diff)
  qed
  from dy out net fields floats ints show ?thesis by blast
qed

text \<open>
  The theorem at the decimal day: the double difference 1000.3 - 0.8 is 999.5, so
  \<open>net_calories\<close> = round(999.5) = 1000, beside 1000 and 1.
\<close>

theorem net_calories_rounds_difference_witness:
  "get_mfp_data_for_date decimal_client example_date = Some decimal_snapshot \<and>
   net_calories decimal_snapshot = round_half_even (1999 / 2) \<and>
   net_calories decimal_snapshot = 1000 \<and>
   calories_in decimal_snapshot = 1000 \<and>
   calories_out_exercise decimal_snapshot = 1"
proof -
  from net_calories_rounds_difference [OF decimal_get_mfp_data]
  obtain dy cals_out net where
    "get_date decimal_client (year example_date) (month example_date) (day example_date)
       = Inr (Some dy)"
    and "exercise_calories dy = Inr (Val cals_out)"
    and "py_sub (dict_get (totals dy) ''calories'' (PInt 0)) (Val cals_out) = Inr (Val net)"
    and n: "net_calories decimal_snapshot = round_half_even (num_val net)"
    by blast
  then have "dy = decimal_day" and "cals_out = PFloat (3602879701896397 / 2 ^ 52)"
    by (simp_all add: decimal_get_date decimal_exercise_calories)
  moreover have "dict_get (totals decimal_day) ''calories'' (PInt 0)
                   = PFloat (4399365925057331 / 2 ^ 42)"
    by (simp add: decimal_day_def dict_get_def)
  ultimately have "net = PFloat (1999 / 2)"
    using \<open>py_sub (dict_get (totals dy) ''calories'' (PInt 0)) (Val cals_out) = Inr (Val net)\<close>
    by (simp only: decimal_net) simp
  with n have "net_calories decimal_snapshot = round_half_even (1999 / 2)" by simp
  then show ?thesis
    by (simp add: decimal_get_mfp_data) (simp add: decimal_snapshot_def)
qed

text \<open>
  C1 as the specification states it fails on the example day: round(1800.25) -
  round(300.625) = 1800 - 301 = 1499, and the snapshot holds round(1499.625) = 1500.
  Every number of this day is a multiple of 1/8, so no float operation rounds.
\<close>

theorem net_calories_difference_of_rounds_counterexample:
  "get_mfp_data_for_date example_client example_date = Some example_snapshot \<and>
   dict_get (totals example_day) ''calories'' (PInt 0) = PFloat (7201 / 4) \<and>
   exercise_calories example_day = Inr (Val (PFloat (2405 / 8))) \<and>
   py_round (Val (PFloat (7201 / 4))) = Inr 1800 \<and>
   py_round (Val (PFloat (2405 / 8))) = Inr 301 \<and>
   net_calories example_snapshot = 1500 \<and>
   net_calories example_snapshot \<noteq> 1800 - 301"
  by (simp add: example_get_mfp_data example_exercise_calories round_eval)
     (simp add: example_day_def dict_get_def example_snapshot_def)

section \<open>The rounded fields of a snapshot\<close>




section \<open>The update rule\<close>

lemmas prop_names =
  NOTION_DATE_PROP_def NOTION_CALS_IN_PROP_def NOTION_CALS_OUT_PROP_def NOTION_NET_CALS_PROP_def
  NOTION_PROTEIN_PROP_def NOTION_CARBS_PROP_def NOTION_FATS_PROP_def NOTION_WATER_PROP_def

lemma py_eq_num_val: "a \<noteq> PNone \<Longrightarrow> b \<noteq> PNone \<Longrightarrow> py_eq a b = (num_val a = num_val b)"
  by (cases a; cases b) auto

lemma get_notion_number_not_None: "get_notion_number props k \<noteq> PNone"
  by (simp add: get_notion_number_def split: option.splits)

lemma num_val_get_notion_number:
  "num_val (get_notion_number (properties p) k) = stored_or_zero p k"
  by (simp add: get_notion_number_def stored_or_zero_def split: option.splits)

lemma py_eq_get_notion_number:
  "b \<noteq> PNone \<Longrightarrow> py_eq (get_notion_number (properties p) k) b = (stored_or_zero p k = num_val b)"
  by (simp add: py_eq_num_val get_notion_number_not_None num_val_get_notion_number)

lemma py_gt_zero: "w \<noteq> PNone \<Longrightarrow> py_gt w (PInt 0) = Inr (0 < num_val w)"
  by (cases w) auto

text \<open>
  C2. For every stored page and every snapshot (a dict holding a number under
  \<open>water_ml\<close>, as \<open>get_mfp_data_for_date\<close> builds it), \<open>entry_needs_update\<close> returns,
  without raising, true if and only if one of the six core fields differs between the
  page (missing or null counting as 0) and the snapshot, or the water property is on
  the page and its value (null counting as 0) differs from the snapshot's
  \<open>water_ml\<close>, or the water property is not on the page and \<open>water_ml\<close> is above 0.
  In particular, with the water property missing and \<open>water_ml\<close> = 0 the water term
  is false, and the answer is that of the six core fields.
\<close>

theorem entry_needs_update_iff:
  assumes "water_ml s = Some water" and "water \<noteq> PNone"
  shows "entry_needs_update p s = Inr (needs_update_spec p s water) \<and>
         (properties p NOTION_WATER_PROP = None \<and> num_val water = 0 \<longrightarrow>
            \<not> water_term p water \<and> entry_needs_update p s = Inr (core_fields_differ p s))"
proof -
  have answer: "entry_needs_update p s = Inr (needs_update_spec p s water)"
    using assms
    by (simp add: entry_needs_update_def Let_def bind_err_def py_eq_get_notion_number py_gt_zero
        needs_update_spec_def core_fields_differ_def water_term_def)
  have "\<not> water_term p water" if "properties p NOTION_WATER_PROP = None" "num_val water = 0"
    using that by (simp add: water_term_def)
  with answer show ?thesis by (simp add: needs_update_spec_def)
qed

text \<open>
  The theorem at three pairs: a page with stale protein (update), the matching page
  without a water property against 750 ml (update), and the same page against 0 ml
  (no update).
\<close>

theorem entry_needs_update_iff_witness:
  "water_ml example_snapshot = Some (PFloat 750) \<and>
   entry_needs_update example_page example_snapshot = Inr True \<and>
   entry_needs_update matching_page example_snapshot = Inr True \<and>
   water_ml dry_snapshot = Some (PInt 0) \<and>
   entry_needs_update matching_page dry_snapshot = Inr False"
proof -
  have w1: "water_ml example_snapshot = Some (PFloat 750)" and n1: "PFloat 750 \<noteq> PNone"
    by (simp_all add: example_snapshot_def)
  have w2: "water_ml dry_snapshot = Some (PInt 0)" and n2: "PInt 0 \<noteq> PNone"
    by (simp_all add: dry_snapshot_def)
  have s1: "needs_update_spec example_page example_snapshot (PFloat 750)"
    by (simp add: needs_update_spec_def core_fields_differ_def stored_or_zero_def
        example_page_def example_snapshot_def prop_names)
  have s2: "needs_update_spec matching_page example_snapshot (PFloat 750)"
    by (simp add: needs_update_spec_def water_term_def stored_or_zero_def
        matching_page_def prop_names)
  have s3: "\<not> needs_update_spec matching_page dry_snapshot (PInt 0)"
    by (simp add: needs_update_spec_def core_fields_differ_def water_term_def stored_or_zero_def
        matching_page_def dry_snapshot_def example_snapshot_def prop_names)
  from entry_needs_update_iff [OF w1 n1, of example_page]
    entry_needs_update_iff [OF w1 n1, of matching_page]
    entry_needs_update_iff [OF w2 n2, of matching_page]
    s1 s2 s3 w1 w2
  show ?thesis by simp
qed

section \<open>The requests of create and update\<close>

lemma update_properties_Date:
  "update_properties (update_notion_entry pid s) NOTION_DATE_PROP = None"
  by (simp add: update_notion_entry_def Let_def prop_names split: option.splits)

lemma create_properties_eq:
  "create_properties (create_notion_entry db s) =
     (update_properties (update_notion_entry pid s))(NOTION_DATE_PROP \<mapsto> DateStart (date s))"
  by (rule ext) (simp add: create_notion_entry_def update_notion_entry_def Let_def prop_names
      split: option.splits)

lemma update_properties_restrict:
  "update_properties (update_notion_entry pid s) =
     create_properties (create_notion_entry db s) |` (- {NOTION_DATE_PROP})"
proof (rule ext)
  fix k
  show "update_properties (update_notion_entry pid s) k =
     (create_properties (create_notion_entry db s) |` (- {NOTION_DATE_PROP})) k"
    using update_properties_Date [of pid s]
    by (simp add: create_properties_eq [of db s pid] restrict_map_def)
qed

lemma dom_update_properties:
  "dom (update_properties (update_notion_entry pid s)) =
     {NOTION_CALS_IN_PROP, NOTION_CALS_OUT_PROP, NOTION_NET_CALS_PROP,
      NOTION_PROTEIN_PROP, NOTION_CARBS_PROP, NOTION_FATS_PROP} \<union>
     (case water_ml s of
        None \<Rightarrow> {}
      | Some w \<Rightarrow> if w \<noteq> PNone then {NOTION_WATER_PROP} else {})"
  by (auto simp: update_notion_entry_def Let_def split: option.splits)

lemma water_property_written:
  "water_ml s = Some w \<Longrightarrow> w \<noteq> PNone \<Longrightarrow>
     create_properties (create_notion_entry db s) NOTION_WATER_PROP = Some (Number w) \<and>
     update_properties (update_notion_entry pid s) NOTION_WATER_PROP = Some (Number w)"
  by (simp add: create_notion_entry_def update_notion_entry_def Let_def)

text \<open>
  C4. For every page id and every snapshot, the request built by \<open>update_notion_entry\<close>
  is addressed to that page id, holds the properties of a create for the same snapshot
  with the date property taken out, and so never holds the date property. The store is
  outside the program: \<open>pages_update\<close> stands for any store that leaves alone the
  properties a request does not name, and on such a store the update leaves the stored
  record's date property as it was.
\<close>

theorem update_request_leaves_date:
  assumes frame: "\<And>stored req k. k \<notin> dom (update_properties req) \<Longrightarrow>
                    pages_update stored req k = stored k"
  shows "update_page_id (update_notion_entry pid s) = pid \<and>
         NOTION_DATE_PROP \<notin> dom (update_properties (update_notion_entry pid s)) \<and>
         update_properties (update_notion_entry pid s) =
           create_properties (create_notion_entry db s) |` (- {NOTION_DATE_PROP}) \<and>
         pages_update stored (update_notion_entry pid s) NOTION_DATE_PROP = stored NOTION_DATE_PROP"
proof -
  have no_date: "NOTION_DATE_PROP \<notin> dom (update_properties (update_notion_entry pid s))"
    by (simp add: domIff update_properties_Date)
  have "update_page_id (update_notion_entry pid s) = pid"
    by (simp add: update_notion_entry_def Let_def)
  with no_date frame [OF no_date] update_properties_restrict [of pid s db]
  show ?thesis by blast
qed

text \<open>
  The theorem on a store that patches: the update of the example page keeps the date
  and replaces the protein.
\<close>

theorem update_request_leaves_date_witness:
  "patch_store example_stored (update_notion_entry ''page-1'' example_snapshot) NOTION_DATE_PROP
     = Some (DateStart ''2024-05-17'') \<and>
   patch_store example_stored (update_notion_entry ''page-1'' example_snapshot) NOTION_PROTEIN_PROP
     = Some (Number (PInt 120)) \<and>
   update_page_id (update_notion_entry ''page-1'' example_snapshot) = ''page-1''"
proof -
  have frame: "patch_store stored req k = stored k" if "k \<notin> dom (update_properties req)"
    for stored req k
    using that by (simp add: patch_store_def map_add_def domIff split: option.splits)
  from update_request_leaves_date
         [of patch_store "''page-1''" example_snapshot _ example_stored, OF frame]
  have "patch_store example_stored (update_notion_entry ''page-1'' example_snapshot)
          NOTION_DATE_PROP = example_stored NOTION_DATE_PROP"
    and "update_page_id (update_notion_entry ''page-1'' example_snapshot) = ''page-1''"
    by blast+
  moreover have "example_stored NOTION_DATE_PROP = Some (DateStart ''2024-05-17'')"
    by (simp add: example_stored_def prop_names)
  moreover have "patch_store example_stored (update_notion_entry ''page-1'' example_snapshot)
                   NOTION_PROTEIN_PROP = Some (Number (PInt 120))"
    by (simp add: patch_store_def update_notion_entry_def Let_def example_snapshot_def prop_names)
  ultimately show ?thesis by simp
qed

text \<open>
  C10. For the same snapshot, the properties of the create request are those of the
  update request, key for key and value for value, plus the date property, which the
  update request does not hold. The update request holds the six numeric properties,
  and the water property exactly when the snapshot holds a non-null \<open>water_ml\<close>. The
  create request also carries the fixed apple icon.
\<close>

theorem create_and_update_payloads_agree:
  "create_properties (create_notion_entry db s) =
     (update_properties (update_notion_entry pid s))(NOTION_DATE_PROP \<mapsto> DateStart (date s)) \<and>
   update_properties (update_notion_entry pid s) NOTION_DATE_PROP = None \<and>
   dom (update_properties (update_notion_entry pid s)) =
     {NOTION_CALS_IN_PROP, NOTION_CALS_OUT_PROP, NOTION_NET_CALS_PROP,
      NOTION_PROTEIN_PROP, NOTION_CARBS_PROP, NOTION_FATS_PROP} \<union>
     (case water_ml s of
        None \<Rightarrow> {}
      | Some w \<Rightarrow> if w \<noteq> PNone then {NOTION_WATER_PROP} else {}) \<and>
   icon_emoji (create_notion_entry db s) = APPLE_EMOJI"
proof -
  have "icon_emoji (create_notion_entry db s) = APPLE_EMOJI"
    by (simp add: create_notion_entry_def Let_def)
  with create_properties_eq [of db s pid] update_properties_Date [of pid s]
    dom_update_properties [of pid s]
  show ?thesis by blast
qed

lemma no_water_get_mfp_data:
  "get_mfp_data_for_date no_water_client example_date = Some dry_snapshot"
proof (rule get_mfp_data_for_dateI [OF _ _ example_exercise_calories _ example_net])
  show "get_date no_water_client (year example_date) (month example_date) (day example_date)
          = Inr (Some example_day)"
    by (simp add: no_water_client_def example_client_def)
  show "get_water no_water_client example_date = Inr PNone"
    by (simp add: no_water_client_def)
  show "dict_get (totals example_day) ''calories'' (PInt 0) = PFloat (7201 / 4)"
    by (simp add: example_day_def dict_get_def)
  show "dry_snapshot =
      \<lparr> date = strftime_ymd example_date,
        calories_in = round_half_even (num_val (PFloat (7201 / 4))),
        calories_out_exercise = round_half_even (num_val (PFloat (2405 / 8))),
        net_calories = round_half_even (num_val (PFloat (11997 / 8))),
        protein = round_half_even (num_val (dict_get (totals example_day) ''protein'' (PInt 0))),
        carbs = round_half_even (num_val (dict_get (totals example_day) ''carbohydrates'' (PInt 0))),
        fats = round_half_even (num_val (dict_get (totals example_day) ''fat'' (PInt 0))),
        water_ml = Some (if PNone \<noteq> PNone then PNone else PInt 0) \<rparr>"
    by (simp add: dry_snapshot_def example_snapshot_def example_strftime example_day_def
        dict_get_def round_eval)
qed

text \<open>
  C9. Every non-absent snapshot returned by \<open>get_mfp_data_for_date\<close> holds the key
  \<open>water_ml\<close> with a non-null value, which is 0 when the provider returns \<open>None\<close> for
  the water; so the requests built from it by \<open>create_notion_entry\<close> and
  \<open>update_notion_entry\<close> both hold the water property, with that value.
\<close>

theorem snapshot_always_has_water:
  assumes "get_mfp_data_for_date client d = Some s"
  shows "\<exists>w. water_ml s = Some w \<and> w \<noteq> PNone \<and>
           create_properties (create_notion_entry db s) NOTION_WATER_PROP = Some (Number w) \<and>
           update_properties (update_notion_entry pid s) NOTION_WATER_PROP = Some (Number w) \<and>
           (get_water client d = Inr PNone \<longrightarrow> w = PInt 0)"
proof -
  from assms obtain water where water: "get_water client d = Inr water"
    and s: "water_ml s = Some (if water \<noteq> PNone then water else PInt 0)"
    by (auto simp: get_mfp_data_for_date_Some)
  let ?w = "if water \<noteq> PNone then water else PInt 0"
  have "?w \<noteq> PNone" by simp
  with s water_property_written [of s ?w db pid] water show ?thesis
    by (intro exI [of _ ?w]) auto
qed

text \<open>The theorem at the provider that returns \<open>None\<close> for the water.\<close>

theorem snapshot_always_has_water_witness:
  "get_mfp_data_for_date no_water_client example_date = Some dry_snapshot \<and>
   water_ml dry_snapshot = Some (PInt 0) \<and>
   create_properties (create_notion_entry ''db-1'' dry_snapshot) NOTION_WATER_PROP
     = Some (Number (PInt 0)) \<and>
   update_properties (update_notion_entry ''page-1'' dry_snapshot) NOTION_WATER_PROP
     = Some (Number (PInt 0))"
proof -
  have w: "water_ml dry_snapshot = Some (PInt 0)"
    by (simp add: dry_snapshot_def)
  from snapshot_always_has_water [OF no_water_get_mfp_data, of "''db-1''" "''page-1''"] w
  show ?thesis by (auto simp: no_water_get_mfp_data)
qed

section \<open>Locating the record\<close>

text \<open>
  C5. For every response the store gives to the query, \<open>entry_exists\<close> returns the
  first page of the result list when the list has one or more pages, whatever follows
  it, and an absent result when the list is empty.
\<close>

theorem entry_exists_first_result:
  assumes "databases_query notion_client database_id
             \<lparr> filter_property = NOTION_DATE_PROP, date_equals = entry_date_str \<rparr>
           = Inr (Some response)"
  shows "(\<forall>first_page more. results response = first_page # more \<longrightarrow>
            entry_exists notion_client database_id entry_date_str = Some first_page) \<and>
         (results response = [] \<longrightarrow> entry_exists notion_client database_id entry_date_str = None)"
  using assms by (simp add: entry_exists_def)

text \<open>The theorem at a store holding two pages for the date, and at an empty store.\<close>

theorem entry_exists_first_result_witness:
  "entry_exists example_notion ''db-1'' ''2024-05-17'' = Some example_page \<and>
   entry_exists empty_notion ''db-1'' ''2024-05-17'' = None"
proof -
  have q1: "databases_query example_notion ''db-1''
             \<lparr> filter_property = NOTION_DATE_PROP, date_equals = ''2024-05-17'' \<rparr>
            = Inr (Some \<lparr> results = [example_page, example_page \<lparr> page_id := ''page-2'' \<rparr>] \<rparr>)"
    by (simp add: example_notion_def)
  have q2: "databases_query empty_notion ''db-1''
             \<lparr> filter_property = NOTION_DATE_PROP, date_equals = ''2024-05-17'' \<rparr>
            = Inr (Some \<lparr> results = [] \<rparr>)"
    by (simp add: empty_notion_def)
  from entry_exists_first_result [OF q1] entry_exists_first_result [OF q2]
  show ?thesis by simp
qed

section \<open>The pipeline\<close>

text \<open>
  C6. For every date with a non-absent snapshot: a store query that raises makes
  \<open>entry_exists\<close> return the absent result, as for no record found; whenever
  \<open>entry_exists\<close> returns the absent result, the calls of the date are the fetch, the
  query and one create of the snapshot, and no update; and when the calls of the date
  are the fetch and the query alone, with no exception (No-Op), an existing page was
  found and \<open>entry_needs_update\<close> returned false on it.
\<close>

theorem query_error_means_create:
  assumes "get_mfp_data_for_date (mfp w tr) d = Some s"
  shows "((\<exists>e. databases_query (notion w (tr @ [GetMfpData d])) database_id
                 \<lparr> filter_property = NOTION_DATE_PROP, date_equals = strftime_ymd d \<rparr> = Inl e) \<longrightarrow>
            entry_exists (notion w (tr @ [GetMfpData d])) database_id (strftime_ymd d) = None) \<and>
         (entry_exists (notion w (tr @ [GetMfpData d])) database_id (strftime_ymd d) = None \<longrightarrow>
            process_date database_id w tr d =
              (tr @ [GetMfpData d, EntryExists database_id (strftime_ymd d),
                     PagesCreate (create_notion_entry database_id s)], None)) \<and>
         (process_date database_id w tr d =
              (tr @ [GetMfpData d, EntryExists database_id (strftime_ymd d)], None) \<longrightarrow>
            (\<exists>existing_page.
               entry_exists (notion w (tr @ [GetMfpData d])) database_id (strftime_ymd d)
                 = Some existing_page \<and>
               entry_needs_update existing_page s = Inr False))"
proof (intro conjI impI)
  assume "\<exists>e. databases_query (notion w (tr @ [GetMfpData d])) database_id
                 \<lparr> filter_property = NOTION_DATE_PROP, date_equals = strftime_ymd d \<rparr> = Inl e"
  then show "entry_exists (notion w (tr @ [GetMfpData d])) database_id (strftime_ymd d) = None"
    by (auto simp: entry_exists_def)
next
  assume "entry_exists (notion w (tr @ [GetMfpData d])) database_id (strftime_ymd d) = None"
  with assms show "process_date database_id w tr d =
              (tr @ [GetMfpData d, EntryExists database_id (strftime_ymd d),
                     PagesCreate (create_notion_entry database_id s)], None)"
    by (simp add: process_date_def Let_def)
next
  assume "process_date database_id w tr d =
              (tr @ [GetMfpData d, EntryExists database_id (strftime_ymd d)], None)"
  with assms show "\<exists>existing_page.
               entry_exists (notion w (tr @ [GetMfpData d])) database_id (strftime_ymd d)
                 = Some existing_page \<and>
               entry_needs_update existing_page s = Inr False"
    by (auto simp: process_date_def Let_def split: option.splits sum.splits bool.splits if_splits)
qed

text \<open>The theorem at a store whose query fails: the example day is created.\<close>

theorem query_error_means_create_witness:
  "get_mfp_data_for_date (mfp example_world []) example_date = Some example_snapshot \<and>
   databases_query (notion example_world ([] @ [GetMfpData example_date])) ''db-1''
       \<lparr> filter_property = NOTION_DATE_PROP, date_equals = strftime_ymd example_date \<rparr>
     = Inl (ExternalError ''HTTP 502'') \<and>
   process_date ''db-1'' example_world [] example_date =
     ([GetMfpData example_date, EntryExists ''db-1'' ''2024-05-17'',
       PagesCreate (create_notion_entry ''db-1'' example_snapshot)], None)"
proof -
  have h: "get_mfp_data_for_date (mfp example_world []) example_date = Some example_snapshot"
    by (simp add: example_world_def example_get_mfp_data)
  have q: "databases_query (notion example_world ([] @ [GetMfpData example_date])) ''db-1''
       \<lparr> filter_property = NOTION_DATE_PROP, date_equals = strftime_ymd example_date \<rparr>
     = Inl (ExternalError ''HTTP 502'')"
    by (simp add: example_world_def failing_notion_def)
  from query_error_means_create [OF h, of "''db-1''"] q
  have "process_date ''db-1'' example_world [] example_date =
     ([] @ [GetMfpData example_date, EntryExists ''db-1'' (strftime_ymd example_date),
       PagesCreate (create_notion_entry ''db-1'' example_snapshot)], None)"
    by blast
  with h q show ?thesis by (simp add: example_strftime)
qed

text \<open>
  C7. For every date, if \<open>get_date\<close> raises or returns no data, or \<open>get_water\<close>
  raises, then \<open>get_mfp_data_for_date\<close> returns the absent result; the only call of
  the date is then the fetch, with no store query, create or update, no exception
  leaves the loop body, and the loop goes on with the remaining dates.
\<close>

theorem provider_failure_skips_date:
  assumes "(\<exists>e. get_date (mfp w tr) (year d) (month d) (day d) = Inl e) \<or>
           get_date (mfp w tr) (year d) (month d) (day d) = Inr None \<or>
           (\<exists>e. get_water (mfp w tr) d = Inl e)"
  shows "get_mfp_data_for_date (mfp w tr) d = None \<and>
         process_date database_id w tr d = (tr @ [GetMfpData d], None) \<and>
         sync_dates database_id w tr (d # rest) =
           sync_dates database_id w (tr @ [GetMfpData d]) rest"
proof -
  have absent: "get_mfp_data_for_date (mfp w tr) d = None"
  proof (cases "get_mfp_data_for_date (mfp w tr) d")
    case None
    then show ?thesis .
  next
    case (Some s)
    with assms show ?thesis
      by (auto simp: get_mfp_data_for_date_Some)
  qed
  then have "process_date database_id w tr d = (tr @ [GetMfpData d], None)"
    by (simp add: process_date_def Let_def)
  with absent show ?thesis by simp
qed

text \<open>
  The theorem at a provider that refuses the connection, over two dates: both are
  fetched, neither reaches the store.
\<close>

theorem provider_failure_skips_date_witness:
  "get_date (mfp failing_world []) (year example_date) (month example_date) (day example_date)
     = Inl (ExternalError ''connection refused'') \<and>
   get_mfp_data_for_date (mfp failing_world []) example_date = None \<and>
   process_date ''db-1'' failing_world [] example_date = ([GetMfpData example_date], None) \<and>
   sync_dates ''db-1'' failing_world [] [example_date, example_date] =
     ([GetMfpData example_date, GetMfpData example_date], None)"
proof -
  have g: "get_date (mfp failing_world tr) (year example_date) (month example_date)
             (day example_date) = Inl (ExternalError ''connection refused'')" for tr
    by (simp add: failing_world_def failing_client_def)
  then have a: "(\<exists>e. get_date (mfp failing_world tr) (year example_date) (month example_date)
                    (day example_date) = Inl e) \<or>
           get_date (mfp failing_world tr) (year example_date) (month example_date)
                    (day example_date) = Inr None \<or>
           (\<exists>e. get_water (mfp failing_world tr) example_date = Inl e)" for tr
    by blast
  from provider_failure_skips_date [OF a, of "[]" "''db-1''" "[example_date]"]
    provider_failure_skips_date [OF a, of "[GetMfpData example_date]" "''db-1''" "[]"]
    g [of "[]"]
  show ?thesis by simp
qed

text \<open>
  C8. If the store access token or the database identifier is absent from the
  environment (or empty), \<open>main\<close> returns having made no call at all: no provider
  client is created and no store request is issued.
\<close>

theorem main_aborts_without_configuration:
  assumes "NOTION_TOKEN e = None \<or> NOTION_TOKEN e = Some [] \<or>
           NOTION_DATABASE_ID e = None \<or> NOTION_DATABASE_ID e = Some []"
  shows "main e = ([], None)"
  using assms by (auto simp: main_def split: option.splits)

text \<open>The theorem at an environment without the token, whose provider would answer.\<close>

theorem main_aborts_without_configuration_witness:
  "NOTION_TOKEN unconfigured_env = None \<and> main unconfigured_env = ([], None)"
proof -
  have t: "NOTION_TOKEN unconfigured_env = None"
    by (simp add: unconfigured_env_def)
  then have "NOTION_TOKEN unconfigured_env = None \<or> NOTION_TOKEN unconfigured_env = Some [] \<or>
     NOTION_DATABASE_ID unconfigured_env = None \<or> NOTION_DATABASE_ID unconfigured_env = Some []"
    by simp
  from main_aborts_without_configuration [OF this] t show ?thesis by simp
qed

end
